theory Spec2Isabelle
  imports Main "HOL-Library.AList"
begin

unbundle bit_operations_syntax

chapter \<open>Chameleon: a recording and replaying HTTP proxy\<close>

text \<open>
  A shallow embedding of the Go packages \<^verbatim>\<open>internal/hash\<close>, \<^verbatim>\<open>internal/storage\<close> and
  \<^verbatim>\<open>internal/proxy\<close>. Go strings and byte slices are both byte sequences and are
  modelled as \<^typ>\<open>string\<close> (a list of 8-bit characters). Functions of the Go standard
  library that the packages call (\<^verbatim>\<open>net/http\<close>, \<^verbatim>\<open>net/textproto\<close>,
  \<^verbatim>\<open>crypto/sha256\<close>, \<^verbatim>\<open>encoding/hex\<close>, \<^verbatim>\<open>encoding/base64\<close>,
  \<^verbatim>\<open>encoding/json\<close>) are modelled from their documented behaviour; each such
  definition says so.
\<close>

section \<open>Bytes and characters\<close>

type_synonym bytes = string

abbreviation DQUOTE :: char where "DQUOTE \<equiv> CHR 0x22"
abbreviation BACKSLASH :: char where "BACKSLASH \<equiv> CHR 0x5C"

definition byte_val :: "char \<Rightarrow> nat" where
  "byte_val c = of_char c"

definition isLower :: "char \<Rightarrow> bool" where
  "isLower c = (97 \<le> byte_val c \<and> byte_val c \<le> 122)"

definition isUpper :: "char \<Rightarrow> bool" where
  "isUpper c = (65 \<le> byte_val c \<and> byte_val c \<le> 90)"

definition isDigit :: "char \<Rightarrow> bool" where
  "isDigit c = (48 \<le> byte_val c \<and> byte_val c \<le> 57)"

definition toUpper :: "char \<Rightarrow> char" where
  "toUpper c = char_of (byte_val c - 32)"

definition toLower :: "char \<Rightarrow> char" where
  "toLower c = char_of (byte_val c + 32)"

section \<open>HTTP headers (net/http, net/textproto)\<close>

text \<open>
  \<^verbatim>\<open>http.Header\<close> is \<^verbatim>\<open>map[string][]string\<close>. It is modelled as an association list
  with distinct keys: lookups go through \<^const>\<open>map_of\<close>, and the order of the list is the
  order in which a \<^verbatim>\<open>range\<close> loop happens to visit the entries (Go leaves it
  unspecified, so statements about loops are proved for every order).
\<close>

type_synonym Header = "(string \<times> string list) list"

text \<open>\<^verbatim>\<open>textproto.validHeaderFieldByte\<close>: the token characters of RFC 7230.\<close>

definition validHeaderFieldByte :: "char \<Rightarrow> bool" where
  "validHeaderFieldByte c =
     (isLower c \<or> isUpper c \<or> isDigit c \<or> c \<in> set ''!#$%&*+-.^_`|~'' \<or> c = CHR 0x27)"

text \<open>
  The canonicalising loop of \<^verbatim>\<open>textproto.canonicalMIMEHeaderKey\<close>: the first letter and
  every letter after a hyphen in upper case, all other letters in lower case.
\<close>

fun canonical_loop :: "bool \<Rightarrow> string \<Rightarrow> string" where
  "canonical_loop upper [] = []"
| "canonical_loop upper (c # cs) =
     (if upper \<and> isLower c then toUpper c # canonical_loop False cs
      else if \<not> upper \<and> isUpper c then toLower c # canonical_loop False cs
      else c # canonical_loop (c = CHR ''-'') cs)"

text \<open>
  \<^verbatim>\<open>textproto.CanonicalMIMEHeaderKey\<close>: a key containing a space or any other byte that
  is not a token character is returned unchanged.
\<close>

definition CanonicalMIMEHeaderKey :: "string \<Rightarrow> string" where
  "CanonicalMIMEHeaderKey s = (if list_all validHeaderFieldByte s then canonical_loop True s else s)"

text \<open>\<^verbatim>\<open>Header.Get\<close>: the first value of the canonicalised key, or the empty string.\<close>

definition Header_Get :: "string \<Rightarrow> Header \<Rightarrow> string" where
  "Header_Get key h =
     (case map_of h (CanonicalMIMEHeaderKey key) of
        None \<Rightarrow> []
      | Some [] \<Rightarrow> []
      | Some (v # vs) \<Rightarrow> v)"

text \<open>\<^verbatim>\<open>Header.Set\<close>: replaces whatever values the canonicalised key had.\<close>

definition Header_Set :: "string \<Rightarrow> string \<Rightarrow> Header \<Rightarrow> Header" where
  "Header_Set key v h = AList.update (CanonicalMIMEHeaderKey key) [v] h"

text \<open>\<^verbatim>\<open>Header.Add\<close>: appends to the values of the canonicalised key.\<close>

definition Header_Add :: "string \<Rightarrow> string \<Rightarrow> Header \<Rightarrow> Header" where
  "Header_Add key v h =
     AList.update (CanonicalMIMEHeaderKey key)
       ((case map_of h (CanonicalMIMEHeaderKey key) of None \<Rightarrow> [] | Some vs \<Rightarrow> vs) @ [v]) h"

text \<open>\<^verbatim>\<open>Header.Del\<close>: removes the canonicalised key.\<close>

definition Header_Del :: "string \<Rightarrow> Header \<Rightarrow> Header" where
  "Header_Del key h = AList.delete (CanonicalMIMEHeaderKey key) h"

section \<open>Requests and response writers (net/http)\<close>

text \<open>A Go error is modelled by its message.\<close>

type_synonym error = string

record URL =
  Path :: string
  RawQuery :: string

text \<open>
  The fields of \<^verbatim>\<open>http.Request\<close> that the proxy reads or writes. \<open>Body\<close> is what
  reading the body stream to its end yields: the bytes, or a read error.
\<close>

record Request =
  Method :: string
  URL :: URL
  Header :: Header
  Body :: "error + bytes"
  Host :: string
  RemoteAddr :: string

text \<open>
  An \<^verbatim>\<open>http.ResponseWriter\<close> is modelled by its header map and the sequence of
  \<^verbatim>\<open>WriteHeader\<close> and \<^verbatim>\<open>Write\<close> calls it has received, in order. What the client
  sees is a function of these.
\<close>

datatype wcall = WriteHeaderCall int | WriteCall bytes

record ResponseWriter =
  w_header :: Header
  w_calls :: "wcall list"

definition rw_WriteHeader :: "int \<Rightarrow> ResponseWriter \<Rightarrow> ResponseWriter" where
  "rw_WriteHeader code w = w\<lparr>w_calls := w_calls w @ [WriteHeaderCall code]\<rparr>"

definition rw_Write :: "bytes \<Rightarrow> ResponseWriter \<Rightarrow> ResponseWriter" where
  "rw_Write b w = w\<lparr>w_calls := w_calls w @ [WriteCall b]\<rparr>"

text \<open>The bytes written as response body, and whether any body write happened at all.\<close>

fun written_body :: "wcall list \<Rightarrow> bytes" where
  "written_body [] = []"
| "written_body (WriteCall b # cs) = b @ written_body cs"
| "written_body (WriteHeaderCall code # cs) = written_body cs"

fun is_WriteCall :: "wcall \<Rightarrow> bool" where
  "is_WriteCall (WriteCall b) = True"
| "is_WriteCall (WriteHeaderCall code) = False"

text \<open>
  \<^verbatim>\<open>http.Error\<close>: plain-text content type, the status code, then the message and a
  newline as body.
\<close>

definition http_Error :: "ResponseWriter \<Rightarrow> string \<Rightarrow> int \<Rightarrow> ResponseWriter" where
  "http_Error w msg code =
     (let h1 = Header_Del ''Content-Length'' (w_header w);
          h2 = Header_Set ''Content-Type'' ''text/plain; charset=utf-8'' h1;
          h3 = Header_Set ''X-Content-Type-Options'' ''nosniff'' h2
      in rw_Write (msg @ [CHR 0x0A]) (rw_WriteHeader code (w\<lparr>w_header := h3\<rparr>)))"

definition StatusOK :: int where "StatusOK = 200"
definition StatusNotFound :: int where "StatusNotFound = 404"
definition StatusInternalServerError :: int where "StatusInternalServerError = 500"
definition StatusBadGateway :: int where "StatusBadGateway = 502"

section \<open>The response capturer (package proxy)\<close>

record responseCapturer =
  rc_ResponseWriter :: ResponseWriter
  statusCode :: int
  headers :: Header
  body :: bytes

text \<open>
  \<^verbatim>\<open>responseCapturer.WriteHeader\<close>: records the code, copies every entry of the
  underlying writer's header map into \<open>headers\<close>, then forwards the call.
\<close>

definition capturer_WriteHeader :: "int \<Rightarrow> responseCapturer \<Rightarrow> responseCapturer" where
  "capturer_WriteHeader code rc =
     rc\<lparr>statusCode := code,
        headers := fold (\<lambda>(key, values). AList.update key values)
                     (w_header (rc_ResponseWriter rc)) (headers rc),
        rc_ResponseWriter := rw_WriteHeader code (rc_ResponseWriter rc)\<rparr>"

text \<open>\<^verbatim>\<open>responseCapturer.Write\<close>: appends to \<open>body\<close> and forwards the bytes.\<close>

definition capturer_Write :: "bytes \<Rightarrow> responseCapturer \<Rightarrow> responseCapturer" where
  "capturer_Write b rc =
     rc\<lparr>body := body rc @ b, rc_ResponseWriter := rw_Write b (rc_ResponseWriter rc)\<rparr>"

text \<open>\<^verbatim>\<open>responseCapturer.Header\<close>: the header map of the underlying writer.\<close>

definition capturer_Header :: "responseCapturer \<Rightarrow> Header" where
  "capturer_Header rc = w_header (rc_ResponseWriter rc)"

text \<open>
  What a caller can do with a response writer: change its header map, commit a status,
  write a chunk of body.
\<close>

datatype wop =
    OpHeaderSet string string
  | OpHeaderAdd string string
  | OpHeaderDel string
  | OpWriteHeader int
  | OpWrite bytes

fun rw_apply :: "wop \<Rightarrow> ResponseWriter \<Rightarrow> ResponseWriter" where
  "rw_apply (OpHeaderSet k v) w = w\<lparr>w_header := Header_Set k v (w_header w)\<rparr>"
| "rw_apply (OpHeaderAdd k v) w = w\<lparr>w_header := Header_Add k v (w_header w)\<rparr>"
| "rw_apply (OpHeaderDel k) w = w\<lparr>w_header := Header_Del k (w_header w)\<rparr>"
| "rw_apply (OpWriteHeader code) w = rw_WriteHeader code w"
| "rw_apply (OpWrite b) w = rw_Write b w"

fun capturer_apply :: "wop \<Rightarrow> responseCapturer \<Rightarrow> responseCapturer" where
  "capturer_apply (OpHeaderSet k v) rc =
     rc\<lparr>rc_ResponseWriter := rw_apply (OpHeaderSet k v) (rc_ResponseWriter rc)\<rparr>"
| "capturer_apply (OpHeaderAdd k v) rc =
     rc\<lparr>rc_ResponseWriter := rw_apply (OpHeaderAdd k v) (rc_ResponseWriter rc)\<rparr>"
| "capturer_apply (OpHeaderDel k) rc =
     rc\<lparr>rc_ResponseWriter := rw_apply (OpHeaderDel k) (rc_ResponseWriter rc)\<rparr>"
| "capturer_apply (OpWriteHeader code) rc = capturer_WriteHeader code rc"
| "capturer_apply (OpWrite b) rc = capturer_Write b rc"

text \<open>
  The capturer as \<^verbatim>\<open>handleRecord\<close> creates it: status 200 by default, no headers, no
  body.
\<close>

definition new_capturer :: "ResponseWriter \<Rightarrow> responseCapturer" where
  "new_capturer w = \<lparr>rc_ResponseWriter = w, statusCode = StatusOK, headers = [], body = []\<rparr>"

fun is_OpWriteHeader :: "wop \<Rightarrow> bool" where
  "is_OpWriteHeader (OpWriteHeader code) = True"
| "is_OpWriteHeader _ = False"

fun is_OpWrite :: "wop \<Rightarrow> bool" where
  "is_OpWrite (OpWrite b) = True"
| "is_OpWrite _ = False"

section \<open>Stripping conditional headers (package proxy)\<close>

definition conditionalHeaders :: "string list" where
  "conditionalHeaders =
     [''If-None-Match'', ''If-Modified-Since'', ''If-Range'', ''If-Match'', ''If-Unmodified-Since'']"

text \<open>The loop over \<open>conditionalHeaders\<close>, threading the header map and the flag.\<close>

fun strip_loop :: "string list \<Rightarrow> Header \<Rightarrow> bool \<Rightarrow> Header \<times> bool" where
  "strip_loop [] h stripped = (h, stripped)"
| "strip_loop (header # rest) h stripped =
     (if Header_Get header h \<noteq> [] then strip_loop rest (Header_Del header h) True
      else strip_loop rest h stripped)"

definition stripConditionalHeaders :: "Request \<Rightarrow> Request \<times> bool" where
  "stripConditionalHeaders req =
     (case strip_loop conditionalHeaders (Header req) False of
        (h, stripped) \<Rightarrow>
          (let cacheControl = Header_Get ''Cache-Control'' h
           in if cacheControl = ''no-cache'' \<or> cacheControl = ''max-age=0''
              then (req\<lparr>Header := Header_Del ''Cache-Control'' h\<rparr>, True)
              else (req\<lparr>Header := h\<rparr>, stripped)))"

section \<open>SHA-256 and hexadecimal encoding (crypto/sha256, encoding/hex)\<close>

text \<open>
  SHA-256 as FIPS 180-4 defines it. A 32-bit word is a natural number below \<open>2 ^ 32\<close>;
  addition wraps around (\<open>add32\<close>), and the complement in \<open>Ch\<close> is taken within 32 bits.
\<close>

definition add32 :: "nat \<Rightarrow> nat \<Rightarrow> nat" where
  "add32 x y = (x + y) mod 4294967296"

definition rotr :: "nat \<Rightarrow> nat \<Rightarrow> nat" where
  "rotr n x = (drop_bit n x) OR (push_bit (32 - n) x mod 4294967296)"

definition Ch :: "nat \<Rightarrow> nat \<Rightarrow> nat \<Rightarrow> nat" where
  "Ch x y z = (x AND y) XOR ((4294967295 - x) AND z)"

definition Maj :: "nat \<Rightarrow> nat \<Rightarrow> nat \<Rightarrow> nat" where
  "Maj x y z = (x AND y) XOR (x AND z) XOR (y AND z)"

definition bsig0 :: "nat \<Rightarrow> nat" where
  "bsig0 x = rotr 2 x XOR rotr 13 x XOR rotr 22 x"

definition bsig1 :: "nat \<Rightarrow> nat" where
  "bsig1 x = rotr 6 x XOR rotr 11 x XOR rotr 25 x"

definition ssig0 :: "nat \<Rightarrow> nat" where
  "ssig0 x = rotr 7 x XOR rotr 18 x XOR drop_bit 3 x"

definition ssig1 :: "nat \<Rightarrow> nat" where
  "ssig1 x = rotr 17 x XOR rotr 19 x XOR drop_bit 10 x"

definition K256 :: "nat list" where
  "K256 = [
  1116352408, 1899447441, 3049323471, 3921009573, 961987163, 1508970993, 2453635748, 2870763221,
  3624381080, 310598401, 607225278, 1426881987, 1925078388, 2162078206, 2614888103, 3248222580,
  3835390401, 4022224774, 264347078, 604807628, 770255983, 1249150122, 1555081692, 1996064986,
  2554220882, 2821834349, 2952996808, 3210313671, 3336571891, 3584528711, 113926993, 338241895,
  666307205, 773529912, 1294757372, 1396182291, 1695183700, 1986661051, 2177026350, 2456956037,
  2730485921, 2820302411, 3259730800, 3345764771, 3516065817, 3600352804, 4094571909, 275423344,
  430227734, 506948616, 659060556, 883997877, 958139571, 1322822218, 1537002063, 1747873779,
  1955562222, 2024104815, 2227730452, 2361852424, 2428436474, 2756734187, 3204031479, 3329325298]"

definition H0 :: "nat list" where
  "H0 = [1779033703, 3144134277, 1013904242, 2773480762,
         1359893119, 2600822924, 528734635, 1541459225]"

text \<open>The next word of the message schedule, from the words 2, 7, 15 and 16 places back.\<close>

definition next_w :: "nat \<Rightarrow> nat \<Rightarrow> nat \<Rightarrow> nat \<Rightarrow> nat" where
  "next_w w14 w9 w1 w0 = add32 (add32 (add32 (ssig1 w14) w9) (ssig0 w1)) w0"

definition T1 :: "nat \<Rightarrow> nat \<Rightarrow> nat \<Rightarrow> nat \<Rightarrow> nat \<Rightarrow> nat \<Rightarrow> nat" where
  "T1 e f g h k w = add32 (add32 (add32 (add32 h (bsig1 e)) (Ch e f g)) k) w"

definition T2 :: "nat \<Rightarrow> nat \<Rightarrow> nat \<Rightarrow> nat" where
  "T2 a b c = add32 (bsig0 a) (Maj a b c)"

definition mk_state :: "nat list \<Rightarrow> nat \<Rightarrow> nat \<Rightarrow> nat list" where
  "mk_state st t1 t2 =
     (case st of
        [a, b, c, d, e, f, g, h] \<Rightarrow> [add32 t1 t2, a, b, c, add32 d t1, e, f, g]
      | _ \<Rightarrow> st)"

fun round256 :: "nat list \<Rightarrow> nat \<Rightarrow> nat \<Rightarrow> nat list" where
  "round256 [a, b, c, d, e, f, g, h] k w =
     mk_state [a, b, c, d, e, f, g, h] (T1 e f g h k w) (T2 a b c)"
| "round256 st _ _ = st"

text \<open>
  The 64 rounds, one per constant. The second argument is the window of the next 16
  schedule words: the round consumes its first word and the window slides by one.
\<close>

fun rounds :: "nat list \<Rightarrow> nat list \<Rightarrow> nat list \<Rightarrow> nat list" where
  "rounds [] win st = st"
| "rounds (k # ks) [w0, w1, w2, w3, w4, w5, w6, w7, w8, w9, w10, w11, w12, w13, w14, w15] st =
     rounds ks
       [w1, w2, w3, w4, w5, w6, w7, w8, w9, w10, w11, w12, w13, w14, w15, next_w w14 w9 w1 w0]
       (round256 st k w0)"
| "rounds (k # ks) win st = st"

definition compress :: "nat list \<Rightarrow> nat list \<Rightarrow> nat list" where
  "compress hs blk = map2 add32 hs (rounds K256 blk hs)"

definition be32 :: "char \<Rightarrow> char \<Rightarrow> char \<Rightarrow> char \<Rightarrow> nat" where
  "be32 a b c d = ((of_char a * 256 + of_char b) * 256 + of_char c) * 256 + of_char d"

fun words_of :: "bytes \<Rightarrow> nat list" where
  "words_of (a # b # c # d # rest) = be32 a b c d # words_of rest"
| "words_of _ = []"

fun blocks :: "nat list \<Rightarrow> nat list \<Rightarrow> nat list" where
  "blocks hs (w0 # w1 # w2 # w3 # w4 # w5 # w6 # w7 # w8 # w9 # w10 # w11 # w12 # w13 # w14 # w15 # rest) =
     blocks (compress hs [w0, w1, w2, w3, w4, w5, w6, w7, w8, w9, w10, w11, w12, w13, w14, w15]) rest"
| "blocks hs _ = hs"

text \<open>
  Padding: a byte \<open>0x80\<close>, zero bytes up to 56 modulo 64, then the length in bits as a
  64-bit big-endian integer.
\<close>

definition pad :: "bytes \<Rightarrow> bytes" where
  "pad m = m @ [char_of (128 :: nat)] @
     replicate ((119 - length m mod 64) mod 64) (char_of (0 :: nat)) @
     map (\<lambda>s. char_of (drop_bit s (8 * length m))) [56, 48, 40, 32, 24, 16, 8, 0 :: nat]"

definition word_bytes :: "nat \<Rightarrow> bytes" where
  "word_bytes w = [char_of (w div 16777216), char_of (w div 65536), char_of (w div 256), char_of w]"

text \<open>The digest of everything written to a \<^verbatim>\<open>sha256.New()\<close> accumulator.\<close>

definition sha256_Sum :: "bytes \<Rightarrow> bytes" where
  "sha256_Sum m = concat (map word_bytes (blocks H0 (words_of (pad m))))"

definition hexdigit :: "nat \<Rightarrow> char" where
  "hexdigit n = ''0123456789abcdef'' ! n"

text \<open>\<^verbatim>\<open>hex.EncodeToString\<close>: two lower-case hexadecimal digits per byte.\<close>

definition EncodeToString :: "bytes \<Rightarrow> string" where
  "EncodeToString bs =
     concat (map (\<lambda>c. [hexdigit (byte_val c div 16), hexdigit (byte_val c mod 16)]) bs)"

section \<open>The fingerprint (package hash)\<close>

text \<open>
  \<^verbatim>\<open>hash.Generate\<close>. The reader argument is \<open>None\<close> for a nil reader and otherwise
  what reading it to the end yields. The hash accumulator receives the method, a colon,
  the path, a colon, and then the body; writing to it cannot fail, so the first error
  return of the source has no counterpart here.
\<close>

definition Generate :: "string \<Rightarrow> string \<Rightarrow> (error + bytes) option \<Rightarrow> error + string" where
  "Generate method path reader =
     (let h = method @ '':'' @ path @ '':''
      in case reader of
           None \<Rightarrow> Inr (EncodeToString (sha256_Sum h))
         | Some (Inl e) \<Rightarrow> Inl (''failed to read request body for hashing: '' @ e)
         | Some (Inr bs) \<Rightarrow> Inr (EncodeToString (sha256_Sum (h @ bs))))"

section \<open>Base64 (encoding/base64, \<^verbatim>\<open>StdEncoding\<close>)\<close>

definition encodeStd :: string where
  "encodeStd = ''ABCDEFGHIJKLMNOPQRSTUVWXYZabcdefghijklmnopqrstuvwxyz0123456789+/''"

definition b64_char :: "nat \<Rightarrow> char" where
  "b64_char n = encodeStd ! n"

text \<open>The decoding table: the position of a character in the alphabet, if it has one.\<close>

definition b64_index :: "char \<Rightarrow> nat option" where
  "b64_index c =
     (if isUpper c then Some (byte_val c - 65)
      else if isLower c then Some (byte_val c - 71)
      else if isDigit c then Some (byte_val c + 4)
      else if c = CHR ''+'' then Some 62
      else if c = CHR ''/'' then Some 63
      else None)"

text \<open>
  \<^verbatim>\<open>EncodeToString\<close>: three bytes become four characters; a final group of one or two
  bytes is padded with \<open>=\<close>.
\<close>

fun b64_EncodeToString :: "bytes \<Rightarrow> string" where
  "b64_EncodeToString [] = []"
| "b64_EncodeToString [a] =
     (let n = byte_val a * 65536
      in [b64_char (n div 262144), b64_char (n div 4096 mod 64), CHR ''='', CHR ''=''])"
| "b64_EncodeToString [a, b] =
     (let n = byte_val a * 65536 + byte_val b * 256
      in [b64_char (n div 262144), b64_char (n div 4096 mod 64), b64_char (n div 64 mod 64),
          CHR ''=''])"
| "b64_EncodeToString (a # b # c # rest) =
     (let n = byte_val a * 65536 + byte_val b * 256 + byte_val c
      in b64_char (n div 262144) # b64_char (n div 4096 mod 64) # b64_char (n div 64 mod 64) #
         b64_char (n mod 64) # b64_EncodeToString rest)"

text \<open>
  Decoding of the input with carriage returns and line feeds removed: groups of four
  characters; padding is required and allowed only in the last group; anything else is an
  error (\<open>None\<close>).
\<close>

fun decode_quanta :: "string \<Rightarrow> bytes option" where
  "decode_quanta [] = Some []"
| "decode_quanta (a # b # c # d # rest) =
     (case (b64_index a, b64_index b) of
        (Some ia, Some ib) \<Rightarrow>
          (if c = CHR ''='' then
             (if d = CHR ''='' \<and> rest = [] then Some [char_of (ia * 4 + ib div 16)] else None)
           else
             (case b64_index c of
                None \<Rightarrow> None
              | Some ic \<Rightarrow>
                  (if d = CHR ''='' then
                     (if rest = []
                      then Some [char_of (ia * 4 + ib div 16), char_of (ib * 16 + ic div 4)]
                      else None)
                   else
                     (case b64_index d of
                        None \<Rightarrow> None
                      | Some idx \<Rightarrow>
                          (case decode_quanta rest of
                             None \<Rightarrow> None
                           | Some bs \<Rightarrow>
                               Some (char_of (ia * 4 + ib div 16) # char_of (ib * 16 + ic div 4) #
                                     char_of (ic * 64 + idx) # bs))))))
      | _ \<Rightarrow> None)"
| "decode_quanta _ = None"

text \<open>\<^verbatim>\<open>DecodeString\<close>: new-line characters in the input are ignored.\<close>

definition b64_DecodeString :: "string \<Rightarrow> bytes option" where
  "b64_DecodeString s = decode_quanta (filter (\<lambda>c. c \<noteq> CHR 0x0D \<and> c \<noteq> CHR 0x0A) s)"

section \<open>JSON (encoding/json)\<close>

text \<open>
  A JSON value as \<^verbatim>\<open>json.Unmarshal\<close> stores it in an \<^verbatim>\<open>interface{}\<close>. An object is
  a Go map, kept here as an association list with distinct keys in ascending order (the
  order in which \<^verbatim>\<open>json.Marshal\<close> writes a map). A number keeps its literal: Go holds
  it as a \<^verbatim>\<open>float64\<close> and prints the shortest decimal that reads back as the same
  float, which is outside this model.
\<close>

datatype json =
    JNull
  | JBool bool
  | JNumber string
  | JString string
  | JArray "json list"
  | JObject "(string \<times> json) list"

definition isSpace :: "char \<Rightarrow> bool" where
  "isSpace c = (c = CHR '' '' \<or> c = CHR 0x09 \<or> c = CHR 0x0D \<or> c = CHR 0x0A)"

definition skip_ws :: "string \<Rightarrow> string" where
  "skip_ws s = dropWhile isSpace s"

definition hex_val :: "char \<Rightarrow> nat option" where
  "hex_val c =
     (if isDigit c then Some (byte_val c - 48)
      else if 97 \<le> byte_val c \<and> byte_val c \<le> 102 then Some (byte_val c - 87)
      else if 65 \<le> byte_val c \<and> byte_val c \<le> 70 then Some (byte_val c - 55)
      else None)"

definition hex4 :: "char \<Rightarrow> char \<Rightarrow> char \<Rightarrow> char \<Rightarrow> nat option" where
  "hex4 a b c d =
     (case (hex_val a, hex_val b, hex_val c, hex_val d) of
        (Some x, Some y, Some z, Some w) \<Rightarrow> Some (((x * 16 + y) * 16 + z) * 16 + w)
      | _ \<Rightarrow> None)"

text \<open>The UTF-8 encoding of a code point (\<^verbatim>\<open>utf8.AppendRune\<close>).\<close>

definition utf8_encode :: "nat \<Rightarrow> bytes" where
  "utf8_encode cp =
     (if cp < 128 then [char_of cp]
      else if cp < 2048 then [char_of (192 + cp div 64), char_of (128 + cp mod 64)]
      else if cp < 65536 then
        [char_of (224 + cp div 4096), char_of (128 + cp div 64 mod 64), char_of (128 + cp mod 64)]
      else
        [char_of (240 + cp div 262144), char_of (128 + cp div 4096 mod 64),
         char_of (128 + cp div 64 mod 64), char_of (128 + cp mod 64)])"

definition RuneError :: bytes where
  "RuneError = utf8_encode 65533"

definition in_range :: "nat \<Rightarrow> nat \<Rightarrow> char \<Rightarrow> bool" where
  "in_range lo hi c = (lo \<le> byte_val c \<and> byte_val c \<le> hi)"

text \<open>
  The number of bytes of the well-formed UTF-8 sequence at the head of the input, or 0
  when the input does not start with one (\<^verbatim>\<open>utf8.DecodeRune\<close> then yields the
  replacement character and advances by one byte).
\<close>

fun utf8_width :: "bytes \<Rightarrow> nat" where
  "utf8_width [] = 0"
| "utf8_width (c # cs) =
     (if byte_val c < 128 then 1
      else if in_range 194 223 c then
        (case cs of c1 # _ \<Rightarrow> if in_range 128 191 c1 then 2 else 0 | _ \<Rightarrow> 0)
      else if in_range 224 239 c then
        (case cs of
           c1 # c2 # _ \<Rightarrow>
             if in_range (if byte_val c = 224 then 160 else 128)
                  (if byte_val c = 237 then 159 else 191) c1 \<and> in_range 128 191 c2
             then 3 else 0
         | _ \<Rightarrow> 0)
      else if in_range 240 244 c then
        (case cs of
           c1 # c2 # c3 # _ \<Rightarrow>
             if in_range (if byte_val c = 240 then 144 else 128)
                  (if byte_val c = 244 then 143 else 191) c1 \<and>
                in_range 128 191 c2 \<and> in_range 128 191 c3
             then 4 else 0
         | _ \<Rightarrow> 0)
      else 0)"

definition unescape :: "char \<Rightarrow> char option" where
  "unescape e =
     (if e = DQUOTE \<or> e = BACKSLASH \<or> e = CHR ''/'' then Some e
      else if e = CHR ''b'' then Some (CHR 0x08)
      else if e = CHR ''f'' then Some (CHR 0x0C)
      else if e = CHR ''n'' then Some (CHR 0x0A)
      else if e = CHR ''r'' then Some (CHR 0x0D)
      else if e = CHR ''t'' then Some (CHR 0x09)
      else None)"

definition is_surrogate :: "nat \<Rightarrow> bool" where
  "is_surrogate cp = (55296 \<le> cp \<and> cp < 57344)"

text \<open>
  A 4-digit hexadecimal escape with code point \<open>cp\<close>, followed by \<open>rest\<close>: a high surrogate followed
  by an escaped low surrogate is one code point above the basic plane; any other
  surrogate is the replacement character. Returns the bytes and how many characters of
  \<open>rest\<close> were used.
\<close>

definition unicode_escape :: "nat \<Rightarrow> string \<Rightarrow> bytes \<times> nat" where
  "unicode_escape cp rest =
     (if is_surrogate cp then
        (case rest of
           b # u # h1 # h2 # h3 # h4 # _ \<Rightarrow>
             (case (if b = BACKSLASH \<and> u = CHR ''u'' then hex4 h1 h2 h3 h4 else None) of
                Some lo \<Rightarrow>
                  if cp < 56320 \<and> 56320 \<le> lo \<and> lo < 57344
                  then (utf8_encode ((cp - 55296) * 1024 + (lo - 56320) + 65536), 6)
                  else (RuneError, 0)
              | None \<Rightarrow> (RuneError, 0))
         | _ \<Rightarrow> (RuneError, 0))
      else (utf8_encode cp, 0))"

text \<open>
  A string literal after its opening quote: the decoded contents and the input after the
  closing quote. Control characters must be escaped; ill-formed UTF-8 is replaced.
\<close>

function parse_string_body :: "string \<Rightarrow> (string \<times> string) option" where
  "parse_string_body [] = None"
| "parse_string_body (c # cs) =
     (if c = DQUOTE then Some ([], cs)
      else if c = BACKSLASH then
        (case cs of
           [] \<Rightarrow> None
         | e # cs1 \<Rightarrow>
             if e = CHR ''u'' then
               (case cs1 of
                  h1 # h2 # h3 # h4 # cs2 \<Rightarrow>
                    (case hex4 h1 h2 h3 h4 of
                       None \<Rightarrow> None
                     | Some cp \<Rightarrow>
                         (case unicode_escape cp cs2 of
                            (bs, used) \<Rightarrow>
                              (case parse_string_body (drop used cs2) of
                                 None \<Rightarrow> None
                               | Some (s, r) \<Rightarrow> Some (bs @ s, r))))
                | _ \<Rightarrow> None)
             else
               (case unescape e of
                  None \<Rightarrow> None
                | Some ch \<Rightarrow>
                    (case parse_string_body cs1 of
                       None \<Rightarrow> None
                     | Some (s, r) \<Rightarrow> Some (ch # s, r))))
      else if byte_val c < 32 then None
      else
        (let w = utf8_width (c # cs)
         in case parse_string_body (drop (w - 1) cs) of
              None \<Rightarrow> None
            | Some (s, r) \<Rightarrow> Some ((if w = 0 then RuneError else take w (c # cs)) @ s, r)))"
  by pat_completeness auto
termination
  by (relation "measure length") auto

text \<open>
  A number literal: an optional minus, an integer part without leading zeros, an optional
  fraction, an optional exponent.
\<close>

definition digits_span :: "string \<Rightarrow> string \<times> string" where
  "digits_span s = (takeWhile isDigit s, dropWhile isDigit s)"

definition parse_exponent :: "string \<Rightarrow> (string \<times> string) option" where
  "parse_exponent s =
     (case s of
        e # r \<Rightarrow>
          if e = CHR ''e'' \<or> e = CHR ''E'' then
            (let (sgn, r1) = (case r of
                                g # r' \<Rightarrow> if g = CHR ''+'' \<or> g = CHR ''-'' then ([g], r') else ([], r)
                              | [] \<Rightarrow> ([], r));
                 (ds, r2) = digits_span r1
             in if ds = [] then None else Some (e # sgn @ ds, r2))
          else Some ([], s)
      | [] \<Rightarrow> Some ([], s))"

definition parse_fraction :: "string \<Rightarrow> (string \<times> string) option" where
  "parse_fraction s =
     (case s of
        p # r \<Rightarrow>
          if p = CHR ''.'' then
            (let (ds, r1) = digits_span r in if ds = [] then None else Some (p # ds, r1))
          else Some ([], s)
      | [] \<Rightarrow> Some ([], s))"

definition parse_int_part :: "string \<Rightarrow> (string \<times> string) option" where
  "parse_int_part s =
     (case s of
        c # r \<Rightarrow>
          if c = CHR ''0'' then Some ([c], r)
          else if isDigit c then (let (ds, r1) = digits_span r in Some (c # ds, r1))
          else None
      | [] \<Rightarrow> None)"

definition parse_number :: "string \<Rightarrow> (string \<times> string) option" where
  "parse_number s =
     (let (sgn, s1) = (case s of
                         c # r \<Rightarrow> if c = CHR ''-'' then ([c], r) else ([], s)
                       | [] \<Rightarrow> ([], s))
      in case parse_int_part s1 of
           None \<Rightarrow> None
         | Some (ip, s2) \<Rightarrow>
             (case parse_fraction s2 of
                None \<Rightarrow> None
              | Some (fp, s3) \<Rightarrow>
                  (case parse_exponent s3 of
                     None \<Rightarrow> None
                   | Some (ep, s4) \<Rightarrow> Some (sgn @ ip @ fp @ ep, s4))))"

definition parse_literal :: "string \<Rightarrow> json \<Rightarrow> string \<Rightarrow> (json \<times> string) option" where
  "parse_literal lit v s =
     (if take (length lit) s = lit then Some (v, drop (length lit) s) else None)"

text \<open>Byte-wise order of strings, the order in which Go sorts map keys.\<close>

fun bytes_less :: "string \<Rightarrow> string \<Rightarrow> bool" where
  "bytes_less [] [] = False"
| "bytes_less [] (y # ys) = True"
| "bytes_less (x # xs) [] = False"
| "bytes_less (x # xs) (y # ys) =
     (byte_val x < byte_val y \<or> (x = y \<and> bytes_less xs ys))"

text \<open>
  Storing a member in the map that represents an object: a later member with the same key
  replaces the earlier one; the list stays in ascending key order.
\<close>

fun map_store :: "string \<Rightarrow> json \<Rightarrow> (string \<times> json) list \<Rightarrow> (string \<times> json) list" where
  "map_store k v [] = [(k, v)]"
| "map_store k v ((k', v') # ms) =
     (if k = k' then (k, v) # ms
      else if bytes_less k k' then (k, v) # (k', v') # ms
      else (k', v') # map_store k v ms)"

definition maxNestingDepth :: nat where
  "maxNestingDepth = 10000"

text \<open>
  The parser. The first argument bounds the number of nested calls; \<open>json_parse\<close> below
  starts it with more than any input of that length can use. The second argument is the
  nesting depth, which \<^verbatim>\<open>encoding/json\<close> limits to 10000.
\<close>

fun parse_value :: "nat \<Rightarrow> nat \<Rightarrow> string \<Rightarrow> (json \<times> string) option"
  and parse_elements :: "nat \<Rightarrow> nat \<Rightarrow> string \<Rightarrow> (json list \<times> string) option"
  and parse_members :: "nat \<Rightarrow> nat \<Rightarrow> string \<Rightarrow> ((string \<times> json) list \<times> string) option"
where
  "parse_value 0 d s = None"
| "parse_value (Suc n) d s =
     (case skip_ws s of
        [] \<Rightarrow> None
      | c # cs \<Rightarrow>
          if c = CHR ''{'' then
            (if maxNestingDepth \<le> d then None
             else case skip_ws cs of
                    [] \<Rightarrow> None
                  | c1 # cs1 \<Rightarrow>
                      if c1 = CHR ''}'' then Some (JObject [], cs1)
                      else (case parse_members n (Suc d) cs of
                              None \<Rightarrow> None
                            | Some (ms, r) \<Rightarrow> Some (JObject (foldl (\<lambda>acc (k, v). map_store k v acc) [] ms), r)))
          else if c = CHR ''['' then
            (if maxNestingDepth \<le> d then None
             else case skip_ws cs of
                    [] \<Rightarrow> None
                  | c1 # cs1 \<Rightarrow>
                      if c1 = CHR '']'' then Some (JArray [], cs1)
                      else (case parse_elements n (Suc d) cs of
                              None \<Rightarrow> None
                            | Some (vs, r) \<Rightarrow> Some (JArray vs, r)))
          else if c = DQUOTE then
            (case parse_string_body cs of None \<Rightarrow> None | Some (str, r) \<Rightarrow> Some (JString str, r))
          else if c = CHR ''t'' then parse_literal ''true'' (JBool True) (c # cs)
          else if c = CHR ''f'' then parse_literal ''false'' (JBool False) (c # cs)
          else if c = CHR ''n'' then parse_literal ''null'' JNull (c # cs)
          else if c = CHR ''-'' \<or> isDigit c then
            (case parse_number (c # cs) of None \<Rightarrow> None | Some (lit, r) \<Rightarrow> Some (JNumber lit, r))
          else None)"
| "parse_elements 0 d s = None"
| "parse_elements (Suc n) d s =
     (case parse_value n d s of
        None \<Rightarrow> None
      | Some (v, r) \<Rightarrow>
          (case skip_ws r of
             [] \<Rightarrow> None
           | c # r1 \<Rightarrow>
               if c = CHR '','' then
                 (case parse_elements n d r1 of
                    None \<Rightarrow> None
                  | Some (vs, r2) \<Rightarrow> Some (v # vs, r2))
               else if c = CHR '']'' then Some ([v], r1)
               else None))"
| "parse_members 0 d s = None"
| "parse_members (Suc n) d s =
     (case skip_ws s of
        [] \<Rightarrow> None
      | q # s1 \<Rightarrow>
          if q \<noteq> DQUOTE then None
          else
            (case parse_string_body s1 of
               None \<Rightarrow> None
             | Some (k, r) \<Rightarrow>
                 (case skip_ws r of
                    [] \<Rightarrow> None
                  | col # r1 \<Rightarrow>
                      if col \<noteq> CHR '':'' then None
                      else
                        (case parse_value n d r1 of
                           None \<Rightarrow> None
                         | Some (v, r2) \<Rightarrow>
                             (case skip_ws r2 of
                                [] \<Rightarrow> None
                              | c # r3 \<Rightarrow>
                                  if c = CHR '','' then
                                    (case parse_members n d r3 of
                                       None \<Rightarrow> None
                                     | Some (ms, r4) \<Rightarrow> Some ((k, v) # ms, r4))
                                  else if c = CHR ''}'' then Some ([(k, v)], r3)
                                  else None)))))"

text \<open>
  \<^verbatim>\<open>json.Unmarshal(data, &v)\<close> with \<open>v\<close> an empty interface: the one value of the input,
  with white space allowed around it, or an error (\<open>None\<close>).
\<close>

definition json_Unmarshal :: "bytes \<Rightarrow> json option" where
  "json_Unmarshal data =
     (case parse_value (Suc (Suc (length data + length data))) 0 data of
        None \<Rightarrow> None
      | Some (v, r) \<Rightarrow> if skip_ws r = [] then Some v else None)"

text \<open>
  \<^verbatim>\<open>json.Unmarshal(data, &str)\<close> with \<open>str\<close> an empty string variable: a JSON string is
  stored decoded; \<open>null\<close> leaves the variable as it is and is no error; any other value is
  an error.
\<close>

definition json_Unmarshal_string :: "bytes \<Rightarrow> string option" where
  "json_Unmarshal_string data =
     (case json_Unmarshal data of
        Some (JString str) \<Rightarrow> Some str
      | Some JNull \<Rightarrow> Some []
      | _ \<Rightarrow> None)"

text \<open>
  How \<^verbatim>\<open>json.Marshal\<close> writes a string: quotes, backslash escapes for the quote, the
  backslash and the control characters, a 4-digit hexadecimal escape for the other control characters and
  for \<open><\<close>, \<open>>\<close> and \<open>&\<close>, the escaped replacement character for ill-formed UTF-8, and escapes for the
  line and paragraph separators U+2028 and U+2029.
\<close>

definition escape_byte :: "char \<Rightarrow> string" where
  "escape_byte c =
     (if c = DQUOTE \<or> c = BACKSLASH then [BACKSLASH, c]
      else if c = CHR 0x08 then [BACKSLASH, CHR ''b'']
      else if c = CHR 0x0C then [BACKSLASH, CHR ''f'']
      else if c = CHR 0x0A then [BACKSLASH, CHR ''n'']
      else if c = CHR 0x0D then [BACKSLASH, CHR ''r'']
      else if c = CHR 0x09 then [BACKSLASH, CHR ''t'']
      else if byte_val c < 32 \<or> c = CHR ''<'' \<or> c = CHR ''>'' \<or> c = CHR ''&'' then
        [BACKSLASH, CHR ''u'', CHR ''0'', CHR ''0'', hexdigit (byte_val c div 16),
         hexdigit (byte_val c mod 16)]
      else [c])"

function encode_string_body :: "string \<Rightarrow> string" where
  "encode_string_body [] = []"
| "encode_string_body (c # cs) =
     (if byte_val c < 128 then escape_byte c @ encode_string_body cs
      else
        (let w = utf8_width (c # cs)
         in if w = 0 then BACKSLASH # ''ufffd'' @ encode_string_body cs
            else if take 3 (c # cs) = utf8_encode 8232 then BACKSLASH # ''u2028'' @ encode_string_body (drop 2 cs)
            else if take 3 (c # cs) = utf8_encode 8233 then BACKSLASH # ''u2029'' @ encode_string_body (drop 2 cs)
            else take w (c # cs) @ encode_string_body (drop (w - 1) cs)))"
  by pat_completeness auto
termination
  by (relation "measure length") auto

definition encode_string :: "string \<Rightarrow> string" where
  "encode_string s = DQUOTE # encode_string_body s @ [DQUOTE]"

fun join_commas :: "string list \<Rightarrow> string" where
  "join_commas [] = []"
| "join_commas [x] = x"
| "join_commas (x # y # ys) = x @ '','' @ join_commas (y # ys)"

text \<open>\<^verbatim>\<open>json.Marshal\<close> of a value held in an \<^verbatim>\<open>interface{}\<close>: compact output.\<close>

fun json_Marshal :: "json \<Rightarrow> bytes" where
  "json_Marshal JNull = ''null''"
| "json_Marshal (JBool b) = (if b then ''true'' else ''false'')"
| "json_Marshal (JNumber lit) = lit"
| "json_Marshal (JString s) = encode_string s"
| "json_Marshal (JArray vs) = ''['' @ join_commas (map json_Marshal vs) @ '']''"
| "json_Marshal (JObject ms) =
     ''{'' @ join_commas (map (\<lambda>m. encode_string (fst m) @ '':'' @ json_Marshal (snd m)) ms) @ ''}''"

text \<open>
  \<^verbatim>\<open>json.Indent\<close> with an empty prefix and two spaces of indentation, on compact input,
  started at a given nesting depth. The flags say whether the position is inside a string
  literal, whether the previous character there was a backslash, and whether a bracket
  has just been opened (its line break is delayed, so that empty containers stay on one
  line).
\<close>

definition newline :: "nat \<Rightarrow> string" where
  "newline depth = CHR 0x0A # concat (replicate depth ''  '')"

fun indent_loop :: "bool \<Rightarrow> bool \<Rightarrow> bool \<Rightarrow> nat \<Rightarrow> string \<Rightarrow> string" where
  "indent_loop in_str esc need depth [] = []"
| "indent_loop in_str esc need depth (c # cs) =
     (if in_str then
        c # indent_loop (esc \<or> c \<noteq> DQUOTE) (\<not> esc \<and> c = BACKSLASH) False depth cs
      else if c = CHR ''}'' \<or> c = CHR '']'' then
        (if need then c # indent_loop False False False depth cs
         else newline (depth - 1) @ c # indent_loop False False False (depth - 1) cs)
      else
        (let depth1 = (if need then Suc depth else depth);
             pre = (if need then newline depth1 else [])
         in if c = CHR ''{'' \<or> c = CHR ''['' then pre @ c # indent_loop False False True depth1 cs
            else if c = CHR '','' then pre @ c # newline depth1 @ indent_loop False False False depth1 cs
            else if c = CHR '':'' then pre @ c # CHR '' '' # indent_loop False False False depth1 cs
            else pre @ c # indent_loop (c = DQUOTE) False False depth1 cs))"

section \<open>Stored responses (package storage)\<close>

type_synonym ResponseBody = bytes

text \<open>
  \<^verbatim>\<open>ResponseBody.MarshalJSON\<close>. Its error result is always nil (a value that
  \<^verbatim>\<open>json.Unmarshal\<close> produced, and a string, can always be marshalled), so the model
  returns the bytes. Numbers are the one place where these bytes are not Go's: Go writes
  a number as its \<^verbatim>\<open>float64\<close> prints (\<open>1.0\<close> becomes \<open>1\<close>, an integer beyond
  53 bits is rounded) and rejects a literal outside the \<^verbatim>\<open>float64\<close> range, so that
  such a body takes the base64 branch; here the literal is kept. Nothing below is proved
  about a body that contains a number.
\<close>

definition MarshalJSON :: "ResponseBody \<Rightarrow> bytes" where
  "MarshalJSON rb =
     (if length rb = 0 then ''null''
      else case json_Unmarshal rb of
             Some jsonValue \<Rightarrow> json_Marshal jsonValue
           | None \<Rightarrow> json_Marshal (JString (b64_EncodeToString rb)))"

text \<open>\<^verbatim>\<open>ResponseBody.UnmarshalJSON\<close>; it never returns an error either.\<close>

definition UnmarshalJSON :: "bytes \<Rightarrow> ResponseBody" where
  "UnmarshalJSON data =
     (case json_Unmarshal_string data of
        Some str \<Rightarrow>
          (case b64_DecodeString str of
             Some decoded \<Rightarrow> decoded
           | None \<Rightarrow> str)
      | None \<Rightarrow> data)"

record CachedResponse =
  cr_Method :: string
  cr_Path :: string
  cr_StatusCode :: int
  cr_Headers :: Header
  cr_Body :: ResponseBody

text \<open>
  A record file is a JSON object with the members \<open>method\<close>, \<open>path\<close>, \<open>status_code\<close>,
  \<open>headers\<close> and \<open>body\<close>. The model keeps the members apart instead of the text of the
  whole file: the first four decoded (they are taken to be valid UTF-8, which JSON text
  requires), and \<open>body\<close> as the text of its value in the file, which is what
  \<^verbatim>\<open>UnmarshalJSON\<close> receives. A file that \<^verbatim>\<open>json.Unmarshal\<close> rejects is
  \<open>Undecodable\<close>, with the text of the error.
\<close>

record RecordFile =
  f_method :: string
  f_path :: string
  f_status_code :: int
  f_headers :: Header
  f_body :: bytes

datatype stored_file = Undecodable string | Decodable RecordFile

record Storage =
  basePath :: string

text \<open>
  The world outside the handler: the files of the store, whether writing a file fails
  (and with which message), the requests that reached the backend, the log, and whether
  the handler ended in a run-time panic (the server then aborts the connection; nothing
  further is written or logged by the handler).
\<close>

datatype LogMsg =
    LogIncoming string string string string string
  | LogError string
  | LogReplayMiss string
  | LogReplayLoadFailed string
  | LogReplayServing string string int string
  | LogReplayCompleted
  | LogRecordProxying string
  | LogRecordStripped
  | LogRecordSaved string string int string
  | LogRecordCompleted
  | LogPassthroughProxying string
  | LogPassthroughCompleted

record World =
  files :: "string \<Rightarrow> stored_file option"
  write_error :: "string option"
  contacted :: "Request list"
  logs :: "LogMsg list"
  panicked :: bool

definition add_logs :: "LogMsg list \<Rightarrow> World \<Rightarrow> World" where
  "add_logs ms world = world\<lparr>logs := logs world @ ms\<rparr>"

text \<open>
  The slice expression \<^verbatim>\<open>requestHash[:16]\<close> of the log lines: the first 16 bytes, and a
  run-time panic (\<open>None\<close>) when the string is shorter than that.
\<close>

definition slice16 :: "string \<Rightarrow> string option" where
  "slice16 s = (if length s < 16 then None else Some (take 16 s))"

text \<open>\<^verbatim>\<open>Storage.getFilename\<close>: the hash with the extension \<open>.json\<close> under the base path.\<close>

definition getFilename :: "Storage \<Rightarrow> string \<Rightarrow> string" where
  "getFilename s hash = basePath s @ ''/'' @ hash @ ''.json''"

definition Exists :: "Storage \<Rightarrow> string \<Rightarrow> World \<Rightarrow> bool" where
  "Exists s hash world = (files world (getFilename s hash) \<noteq> None)"

text \<open>
  \<^verbatim>\<open>Storage.Save\<close>: \<^verbatim>\<open>json.MarshalIndent\<close> indents the whole object, so the value of
  \<open>body\<close>, one level inside it, is indented from depth 1.
\<close>

definition Save :: "Storage \<Rightarrow> string \<Rightarrow> CachedResponse \<Rightarrow> World \<Rightarrow> string option \<times> World" where
  "Save s hash response world =
     (let filename = getFilename s hash;
          data = \<lparr>f_method = cr_Method response, f_path = cr_Path response,
                  f_status_code = cr_StatusCode response, f_headers = cr_Headers response,
                  f_body = indent_loop False False False 1 (MarshalJSON (cr_Body response))\<rparr>
      in case write_error world of
           Some err \<Rightarrow> (Some (''failed to write cached response: '' @ err), world)
         | None \<Rightarrow> (None, world\<lparr>files := (files world)(filename \<mapsto> Decodable data)\<rparr>))"

text \<open>
  \<^verbatim>\<open>Storage.Load\<close>: \<^verbatim>\<open>json.Unmarshal\<close> checks the syntax of the whole file before it
  decodes, so a \<open>body\<close> member that is not a JSON value is an error.
\<close>

definition Load :: "Storage \<Rightarrow> string \<Rightarrow> World \<Rightarrow> string + CachedResponse" where
  "Load s hash world =
     (let filename = getFilename s hash
      in case files world filename of
           None \<Rightarrow>
             Inl (''failed to read cached response: open '' @ filename @ '': no such file or directory'')
         | Some (Undecodable err) \<Rightarrow> Inl (''failed to unmarshal cached response: '' @ err)
         | Some (Decodable data) \<Rightarrow>
             (case json_Unmarshal (f_body data) of
                None \<Rightarrow> Inl ''failed to unmarshal cached response: invalid character''
              | Some v \<Rightarrow>
                  Inr \<lparr>cr_Method = f_method data, cr_Path = f_path data,
                       cr_StatusCode = f_status_code data, cr_Headers = f_headers data,
                       cr_Body = UnmarshalJSON (f_body data)\<rparr>))"

section \<open>The handler (package proxy)\<close>

definition ModeRecord :: string where "ModeRecord = ''record''"
definition ModeReplay :: string where "ModeReplay = ''replay''"
definition ModePassthrough :: string where "ModePassthrough = ''passthrough''"

record Config =
  Mode :: string
  BackendURL :: string

text \<open>
  What the backend answers to a forwarded request: a status, headers and the body in the
  chunks in which it arrives, or no answer at all.
\<close>

datatype BackendResult = BackendResponse int Header "bytes list" | BackendFailure

text \<open>
  The parts of \<^verbatim>\<open>httputil.ReverseProxy\<close> that the handler relies on, as parameters:
  the director that \<^verbatim>\<open>NewSingleHostReverseProxy\<close> installs for the backend URL, the
  host of that URL, and the round trip to the backend.
\<close>

record ReverseProxy =
  originalDirector :: "Request \<Rightarrow> Request"
  backendHost :: string
  RoundTrip :: "Request \<Rightarrow> BackendResult"

record Handler =
  config :: Config
  storage :: Storage
  proxy :: ReverseProxy

text \<open>
  The director that \<^verbatim>\<open>New\<close> installs: the original director, the host of the backend
  and, in record mode, the stripping of conditional headers. It returns the outgoing
  request and what it logged.
\<close>

definition Director :: "Handler \<Rightarrow> Request \<Rightarrow> Request \<times> LogMsg list" where
  "Director h req =
     (let req1 = originalDirector (proxy h) req;
          req2 = req1\<lparr>Host := backendHost (proxy h)\<rparr>
      in if Mode (config h) = ModeRecord then
           (case stripConditionalHeaders req2 of
              (req3, stripped) \<Rightarrow> (req3, if stripped then [LogRecordStripped] else []))
         else (req2, []))"

text \<open>
  What \<^verbatim>\<open>ReverseProxy.ServeHTTP\<close> does to the response writer it is given: it adds the
  headers of the backend's response, commits its status and copies its body; when the
  backend cannot be reached it answers 502.
\<close>

fun proxy_writes :: "BackendResult \<Rightarrow> wop list" where
  "proxy_writes (BackendResponse code hdr chunks) =
     concat (map (\<lambda>(key, values). map (OpHeaderAdd key) values) hdr) @
     [OpWriteHeader code] @ map OpWrite chunks"
| "proxy_writes BackendFailure = [OpWriteHeader StatusBadGateway]"

text \<open>
  \<^verbatim>\<open>ReverseProxy.ServeHTTP\<close>: the director rewrites a copy of the request, the copy
  goes to the backend, and the answer is written. The result is the list of writes; the
  world records the contact.
\<close>

definition proxy_ServeHTTP :: "Handler \<Rightarrow> Request \<Rightarrow> World \<Rightarrow> wop list \<times> World" where
  "proxy_ServeHTTP h r world =
     (case Director h r of
        (outreq, lg) \<Rightarrow>
          (proxy_writes (RoundTrip (proxy h) outreq),
           add_logs lg (world\<lparr>contacted := contacted world @ [outreq]\<rparr>)))"

text \<open>The header loop of \<^verbatim>\<open>handleReplay\<close>, over the entries of the stored header map.\<close>

fun replay_headers :: "Header \<Rightarrow> Header \<Rightarrow> Header" where
  "replay_headers [] wh = wh"
| "replay_headers ((key, values) # rest) wh =
     (if key = ''Content-Length'' then replay_headers rest wh
      else case values of
             [] \<Rightarrow> replay_headers rest wh
           | v # vs \<Rightarrow> replay_headers rest (fold (Header_Add key) vs (Header_Set key v wh)))"

definition statusAllowsBody :: "int \<Rightarrow> bool" where
  "statusAllowsBody code = (\<not> (code = 204 \<or> code = 304 \<or> (code \<ge> 100 \<and> code < 200)))"

text \<open>
  \<^verbatim>\<open>handleReplay\<close> from the point where the record is loaded and its log line is
  written: headers, status, and the
  body if the status allows one and the body is neither empty nor \<open>null\<close>. (A failure
  of the body write is only logged.)
\<close>

definition serveCached :: "CachedResponse \<Rightarrow> ResponseWriter \<Rightarrow> ResponseWriter" where
  "serveCached cached w =
     (let w1 = w\<lparr>w_header := replay_headers (cr_Headers cached) (w_header w)\<rparr>;
          w2 = rw_WriteHeader (cr_StatusCode cached) w1;
          bodyStr = cr_Body cached
      in if statusAllowsBody (cr_StatusCode cached) \<and> length (cr_Body cached) > 0 \<and>
            bodyStr \<noteq> ''null'' \<and> bodyStr \<noteq> []
         then rw_Write (cr_Body cached) w2
         else w2)"

definition handleReplay :: "Handler \<Rightarrow> ResponseWriter \<Rightarrow> Request \<Rightarrow> string \<Rightarrow> World \<Rightarrow> ResponseWriter \<times> World" where
  "handleReplay h w r requestHash world =
     (if \<not> Exists (storage h) requestHash world then
        (http_Error w (''no cached response found for request (hash: '' @ requestHash @ '')'')
           StatusNotFound,
         add_logs [LogReplayMiss requestHash] world)
      else
        (case Load (storage h) requestHash world of
           Inl err \<Rightarrow>
             (http_Error w (''failed to load cached response: '' @ err) StatusInternalServerError,
              add_logs [LogReplayLoadFailed err] world)
         | Inr cached \<Rightarrow>
             (case slice16 requestHash of
                None \<Rightarrow> (w, world\<lparr>panicked := True\<rparr>)
              | Some hash16 \<Rightarrow>
                  (serveCached cached w,
                   add_logs [LogReplayServing (cr_Method cached) (cr_Path cached)
                               (cr_StatusCode cached) hash16,
                             LogReplayCompleted] world))))"

definition handleRecord :: "Handler \<Rightarrow> ResponseWriter \<Rightarrow> Request \<Rightarrow> string \<Rightarrow> bytes \<Rightarrow> World \<Rightarrow> ResponseWriter \<times> World" where
  "handleRecord h w r requestHash bodyBytes world =
     (let world1 = add_logs [LogRecordProxying (BackendURL (config h))] world;
          capturer = new_capturer w;
          r1 = r\<lparr>Body := Inr bodyBytes\<rparr>
      in case proxy_ServeHTTP h r1 world1 of
           (ops, world2) \<Rightarrow>
             (let capturer1 = fold capturer_apply ops capturer;
                  cached = \<lparr>cr_Method = Method r1, cr_Path = Path (URL r1),
                            cr_StatusCode = statusCode capturer1, cr_Headers = headers capturer1,
                            cr_Body = body capturer1\<rparr>
              in case Save (storage h) requestHash cached world2 of
                   (Some err, world3) \<Rightarrow>
                     (rc_ResponseWriter capturer1,
                      add_logs [LogError (''Failed to save cached response: '' @ err),
                                LogRecordCompleted] world3)
                 | (None, world3) \<Rightarrow>
                     (case slice16 requestHash of
                        None \<Rightarrow> (rc_ResponseWriter capturer1, world3\<lparr>panicked := True\<rparr>)
                      | Some hash16 \<Rightarrow>
                          (rc_ResponseWriter capturer1,
                           add_logs [LogRecordSaved (cr_Method cached) (cr_Path cached)
                                       (cr_StatusCode cached) hash16,
                                     LogRecordCompleted] world3))))"

definition handlePassthrough :: "Handler \<Rightarrow> ResponseWriter \<Rightarrow> Request \<Rightarrow> World \<Rightarrow> ResponseWriter \<times> World" where
  "handlePassthrough h w r world =
     (let world1 = add_logs [LogPassthroughProxying (BackendURL (config h))] world
      in case proxy_ServeHTTP h r world1 of
           (ops, world2) \<Rightarrow> (fold rw_apply ops w, add_logs [LogPassthroughCompleted] world2))"

text \<open>\<^verbatim>\<open>Handler.ServeHTTP\<close>.\<close>

definition ServeHTTP :: "Handler \<Rightarrow> ResponseWriter \<Rightarrow> Request \<Rightarrow> World \<Rightarrow> ResponseWriter \<times> World" where
  "ServeHTTP h w r world =
     (case Body r of
        Inl err \<Rightarrow>
          (http_Error w (''failed to read request body: '' @ err) StatusInternalServerError,
           add_logs [LogError (''Failed to read request body: '' @ err)] world)
      | Inr bodyBytes \<Rightarrow>
          (let r1 = r\<lparr>Body := Inr bodyBytes\<rparr>
           in case Generate (Method r1) (Path (URL r1)) (Some (Inr bodyBytes)) of
                Inl err \<Rightarrow>
                  (http_Error w (''failed to generate hash: '' @ err) StatusInternalServerError,
                   add_logs [LogError (''Failed to generate hash: '' @ err)] world)
              | Inr requestHash \<Rightarrow>
                  (case slice16 requestHash of
                     None \<Rightarrow> (w, world\<lparr>panicked := True\<rparr>)
                   | Some hash16 \<Rightarrow>
                       (let world1 = add_logs [LogIncoming (Method r1) (Path (URL r1))
                                                 (RemoteAddr r1) hash16 (Mode (config h))] world
                        in if Mode (config h) = ModeReplay then
                             handleReplay h w r1 requestHash world1
                           else if Mode (config h) = ModeRecord then
                             handleRecord h w r1 requestHash bodyBytes world1
                           else if Mode (config h) = ModePassthrough then
                             handlePassthrough h w r1 world1
                           else
                             (http_Error w (''unknown mode: '' @ Mode (config h))
                                StatusInternalServerError,
                              add_logs [LogError (''Unknown mode: '' @ Mode (config h))]
                                world1)))))"

section \<open>Example data\<close>

definition ex_storage :: Storage where
  "ex_storage = \<lparr>basePath = ''./recordings''\<rparr>"

definition ex_writer :: ResponseWriter where
  "ex_writer = \<lparr>w_header = [], w_calls = []\<rparr>"

text \<open>A backend that always answers 200 with a JSON object, in one chunk.\<close>

definition ex_proxy :: ReverseProxy where
  "ex_proxy =
     \<lparr>originalDirector = (\<lambda>req. req), backendHost = ''localhost:8080'',
      RoundTrip = (\<lambda>req. BackendResponse 200 [(''Content-Type'', [''application/json''])]
                           [''{\"name\":\"John\"}''])\<rparr>"

definition ex_handler :: "string \<Rightarrow> Handler" where
  "ex_handler mode =
     \<lparr>config = \<lparr>Mode = mode, BackendURL = ''http://localhost:8080''\<rparr>,
      storage = ex_storage, proxy = ex_proxy\<rparr>"

definition ex_request :: "string \<Rightarrow> string \<Rightarrow> Header \<Rightarrow> Request" where
  "ex_request method path hdr =
     \<lparr>Method = method, URL = \<lparr>Path = path, RawQuery = []\<rparr>, Header = hdr, Body = Inr [],
      Host = ''proxy.local'', RemoteAddr = ''127.0.0.1:50000''\<rparr>"

definition ex_world :: World where
  "ex_world =
     \<lparr>files = Map.empty, write_error = None, contacted = [], logs = [], panicked = False\<rparr>"

text \<open>The fingerprint of \<open>GET /a\<close> with an empty body.\<close>

definition ex_key :: string where
  "ex_key = ''6250cedc68e0ee379a094115f1db0d74fdc9e0fafe1dda182597f5b037ddb7a1''"

text \<open>A store with one record file, under the given key.\<close>

definition ex_world_with :: "string \<Rightarrow> int \<Rightarrow> Header \<Rightarrow> bytes \<Rightarrow> World" where
  "ex_world_with key code hdr body_text =
     ex_world\<lparr>files := [getFilename ex_storage key \<mapsto>
        Decodable \<lparr>f_method = ''GET'', f_path = ''/a'', f_status_code = code, f_headers = hdr,
                   f_body = body_text\<rparr>]\<rparr>"

text \<open>Saving a record and loading it back under the same key.\<close>

definition save_then_load :: "Storage \<Rightarrow> string \<Rightarrow> CachedResponse \<Rightarrow> World \<Rightarrow> string + CachedResponse" where
  "save_then_load s hash response world =
     (case Save s hash response world of
        (Some err, world1) \<Rightarrow> Inl err
      | (None, world1) \<Rightarrow> Load s hash world1)"

definition ex_response :: "bytes \<Rightarrow> CachedResponse" where
  "ex_response b =
     \<lparr>cr_Method = ''POST'', cr_Path = ''/api/users'', cr_StatusCode = 200,
      cr_Headers = [(''Content-Type'', [''application/json''])], cr_Body = b\<rparr>"

chapter \<open>Properties\<close>

section \<open>Evaluation of the library models\<close>

lemmas char_simps =
  byte_val_def isLower_def isUpper_def isDigit_def toUpper_def toLower_def in_range_def
  isSpace_def char_of_eq_iff

lemmas header_simps =
  CanonicalMIMEHeaderKey_def validHeaderFieldByte_def Header_Get_def Header_Set_def
  Header_Add_def Header_Del_def

lemmas json_simps =
  json_Unmarshal_def json_Unmarshal_string_def skip_ws_def parse_literal_def parse_number_def
  parse_int_part_def parse_fraction_def parse_exponent_def digits_span_def unescape_def
  encode_string_def escape_byte_def hexdigit_def maxNestingDepth_def

lemmas base64_simps =
  b64_DecodeString_def b64_index_def b64_char_def encodeStd_def

section \<open>The fingerprint\<close>

lemma replicate_numeral_Cons: "replicate (numeral k) x = x # replicate (pred_numeral k) x"
  by (simp add: numeral_eq_Suc)

lemmas sha256_simps =
  compress_def H0_def K256_def bsig0_def bsig1_def ssig0_def ssig1_def rotr_def Ch_def Maj_def
  next_w_def mk_state_def T1_def T2_def add32_def

lemma words_GET_a:
  "words_of (pad ''GET:/a:'') = [1195725882, 794901120, 0, 0, 0, 0, 0, 0, 0, 0, 0, 0, 0, 0, 0, 56]"
  by (simp add: pad_def be32_def replicate_numeral_Cons)

lemma words_POST_a:
  "words_of (pad ''POST:/a:'') = [1347375956, 976183610, 2147483648, 0, 0, 0, 0, 0, 0, 0, 0, 0, 0, 0, 0, 64]"
  by (simp add: pad_def be32_def replicate_numeral_Cons)

lemma words_GET_b:
  "words_of (pad ''GET:/b:'') = [1195725882, 794966656, 0, 0, 0, 0, 0, 0, 0, 0, 0, 0, 0, 0, 0, 56]"
  by (simp add: pad_def be32_def replicate_numeral_Cons)

lemma compress_GET_a:
  "compress H0 [1195725882, 794901120, 0, 0, 0, 0, 0, 0, 0, 0, 0, 0, 0, 0, 0, 56] =
     [1649463004, 1759571511, 2584297749, 4057664884, 4257865978, 4263369240, 630715824, 937277345]"
  by (simp add: sha256_simps)

lemma compress_POST_a:
  "compress H0 [1347375956, 976183610, 2147483648, 0, 0, 0, 0, 0, 0, 0, 0, 0, 0, 0, 0, 64] =
     [4082069788, 398992657, 3968213664, 1766617473, 3913652781, 2040462375, 1091213062, 827649864]"
  by (simp add: sha256_simps)

lemma compress_GET_b:
  "compress H0 [1195725882, 794966656, 0, 0, 0, 0, 0, 0, 0, 0, 0, 0, 0, 0, 0, 56] =
     [2917512647, 1234512185, 2186654533, 2640775232, 2118365313, 500534615, 3401679112, 3553013802]"
  by (simp add: sha256_simps)

lemma Generate_GET_a:
  "Generate ''GET'' ''/a'' (Some (Inr [])) =
     Inr ''6250cedc68e0ee379a094115f1db0d74fdc9e0fafe1dda182597f5b037ddb7a1''"
  by (simp add: Generate_def sha256_Sum_def words_GET_a compress_GET_a EncodeToString_def
      word_bytes_def hexdigit_def byte_val_def)

lemma Generate_POST_a:
  "Generate ''POST'' ''/a'' (Some (Inr [])) =
     Inr ''f34f711c17c82511ec8622a0694c7181e9459a2d799efc27410a97063154ef48''"
  by (simp add: Generate_def sha256_Sum_def words_POST_a compress_POST_a EncodeToString_def
      word_bytes_def hexdigit_def byte_val_def)

lemma Generate_GET_b:
  "Generate ''GET'' ''/b'' (Some (Inr [])) =
     Inr ''ade5b5c7499529398255b3459d6708407e43b0811dd58d57cac18108d3c6b02a''"
  by (simp add: Generate_def sha256_Sum_def words_GET_b compress_GET_b EncodeToString_def
      word_bytes_def hexdigit_def byte_val_def)

text \<open>A fingerprint is 64 characters long, so its slice \<^verbatim>\<open>[:16]\<close> never panics.\<close>

lemma list_of_length_8:
  "length xs = 8 \<Longrightarrow> \<exists>a b c d e f g h. xs = [a, b, c, d, e, f, g, h]"
  by (auto simp add: numeral_eq_Suc length_Suc_conv)

lemma length_round256: "length st = 8 \<Longrightarrow> length (round256 st k w) = 8"
proof -
  assume "length st = 8"
  then obtain a b c d e f g h where "st = [a, b, c, d, e, f, g, h]"
    using list_of_length_8 by blast
  then show ?thesis by (simp add: mk_state_def)
qed

lemma length_rounds: "length st = 8 \<Longrightarrow> length (rounds ks win st) = 8"
  by (induction ks win st rule: rounds.induct) (simp_all add: length_round256)

lemma length_compress: "length hs = 8 \<Longrightarrow> length (compress hs blk) = 8"
  by (simp add: compress_def length_rounds)

lemma length_blocks: "length hs = 8 \<Longrightarrow> length (blocks hs ws) = 8"
  by (induction hs ws rule: blocks.induct) (simp_all add: length_compress)

lemma length_word_bytes: "length (concat (map word_bytes ws)) = 4 * length ws"
  by (induction ws) (simp_all add: word_bytes_def)

lemma length_sha256_Sum: "length (sha256_Sum m) = 32"
  by (simp add: sha256_Sum_def length_word_bytes length_blocks H0_def)

lemma length_EncodeToString: "length (EncodeToString bs) = 2 * length bs"
  by (induction bs) (simp_all add: EncodeToString_def)

lemma length_fingerprint: "length (EncodeToString (sha256_Sum m)) = 64"
  by (simp add: length_EncodeToString length_sha256_Sum)

lemma length_Generate: "Generate method path reader = Inr h \<Longrightarrow> length h = 64"
  by (auto simp add: Generate_def Let_def length_fingerprint split: option.splits sum.splits)

lemma slice16_fingerprint:
  "slice16 (EncodeToString (sha256_Sum m)) = Some (take 16 (EncodeToString (sha256_Sum m)))"
  by (simp add: slice16_def length_fingerprint)

lemma slice16_Generate:
  "Generate m p rd = Inr h \<Longrightarrow> slice16 h = Some (take 16 h)"
  using length_Generate [of m p rd h] by (simp add: slice16_def)

text \<open>
  Claim C2: the fingerprint is a function of method, path and body alone, it is always
  produced for a body that could be read, and the fingerprints of (GET, /a, empty),
  (POST, /a, empty) and (GET, /b, empty) are pairwise distinct.
\<close>

theorem C2_fingerprint_deterministic:
  "(method1 = method2 \<and> path1 = path2 \<and> body1 = body2 \<longrightarrow>
      Generate method1 path1 (Some (Inr body1)) = Generate method2 path2 (Some (Inr body2))) \<and>
   (\<exists>h. Generate method1 path1 (Some (Inr body1)) = Inr h) \<and>
   Generate ''GET'' ''/a'' (Some (Inr [])) \<noteq> Generate ''POST'' ''/a'' (Some (Inr [])) \<and>
   Generate ''POST'' ''/a'' (Some (Inr [])) \<noteq> Generate ''GET'' ''/b'' (Some (Inr [])) \<and>
   Generate ''GET'' ''/a'' (Some (Inr [])) \<noteq> Generate ''GET'' ''/b'' (Some (Inr []))"
proof -
  have "\<exists>h. Generate method1 path1 (Some (Inr body1)) = Inr h"
    by (simp add: Generate_def)
  then show ?thesis
    by (simp add: Generate_GET_a Generate_POST_a Generate_GET_b)
qed

theorem C2_fingerprint_deterministic_witness:
  "Generate ''GET'' ''/a'' (Some (Inr [])) = Generate ''GET'' ''/a'' (Some (Inr [])) \<and>
   Generate ''GET'' ''/a'' (Some (Inr [])) \<noteq> Generate ''POST'' ''/a'' (Some (Inr []))"
  using C2_fingerprint_deterministic [of "''GET''" "''GET''" "''/a''" "''/a''" "[]" "[]"]
  by simp

section \<open>The response capturer\<close>

lemma statusCode_fold_no_WriteHeader:
  "list_all (\<lambda>op. \<not> is_OpWriteHeader op) ops \<Longrightarrow>
   statusCode (fold capturer_apply ops rc) = statusCode rc"
proof (induction ops arbitrary: rc)
  case Nil
  then show ?case by simp
next
  case (Cons op ops)
  then show ?case
    by (cases op) (simp_all add: capturer_Write_def)
qed


text \<open>
  In record mode the capturer is driven by the reverse proxy, which commits a status before
  it copies any body: the captured status code is the one the client was sent.
\<close>

lemma statusCode_proxy_writes:
  "statusCode (fold capturer_apply (proxy_writes res) (new_capturer w)) =
     (case res of BackendResponse code hdr chunks \<Rightarrow> code | BackendFailure \<Rightarrow> StatusBadGateway)"
proof (cases res)
  case (BackendResponse code hdr chunks)
  have a: "list_all (\<lambda>op. \<not> is_OpWriteHeader op) (map OpWrite chunks)"
    by (induction chunks) simp_all
  show ?thesis
    by (simp add: BackendResponse statusCode_fold_no_WriteHeader [OF a] capturer_WriteHeader_def)
next
  case BackendFailure
  then show ?thesis by (simp add: capturer_WriteHeader_def)
qed


section \<open>Replay\<close>

lemma Exists_add_logs: "Exists s key (add_logs ms world) = Exists s key world"
  by (simp add: Exists_def add_logs_def)

lemma Load_add_logs: "Load s key (add_logs ms world) = Load s key world"
  by (simp add: Load_def add_logs_def)

text \<open>A replay-mode request whose fingerprint has a loadable record is served from it.\<close>

lemma ServeHTTP_replay_hit:
  assumes "Mode (config h) = ModeReplay"
    and "Body r = Inr bodyBytes"
    and "Generate (Method r) (Path (URL r)) (Some (Inr bodyBytes)) = Inr requestHash"
    and "Exists (storage h) requestHash world"
    and "Load (storage h) requestHash world = Inr cached"
  shows "fst (ServeHTTP h w r world) = serveCached cached w"
  using assms slice16_Generate [OF assms(3)]
  by (simp add: ServeHTTP_def handleReplay_def Exists_add_logs Load_add_logs Let_def)

lemma w_calls_serveCached:
  "w_calls (serveCached cached w) =
     w_calls w @ [WriteHeaderCall (cr_StatusCode cached)] @
     (if statusAllowsBody (cr_StatusCode cached) \<and> cr_Body cached \<noteq> [] \<and> cr_Body cached \<noteq> ''null''
      then [WriteCall (cr_Body cached)] else [])"
  by (simp add: serveCached_def Let_def rw_Write_def rw_WriteHeader_def)

text \<open>The example request and the store that holds one record under its fingerprint.\<close>

lemma ex_request_hash:
  "Generate (Method (ex_request ''GET'' ''/a'' hdr)) (Path (URL (ex_request ''GET'' ''/a'' hdr)))
     (Some (Inr [])) = Inr ex_key"
  using Generate_GET_a by (simp add: ex_request_def ex_key_def)

lemma ex_request_Body: "Body (ex_request method path hdr) = Inr []"
  by (simp add: ex_request_def)

lemma ex_handler_Mode: "Mode (config (ex_handler mode)) = mode"
  by (simp add: ex_handler_def)

lemma ex_Exists: "Exists (storage (ex_handler mode)) key (ex_world_with key code hdr body_text)"
  by (simp add: Exists_def ex_handler_def ex_world_with_def)

lemma ex_load_null:
  "Load (storage (ex_handler mode)) key (ex_world_with key 200 [] ''\"bnVsbA==\"'') =
     Inr \<lparr>cr_Method = ''GET'', cr_Path = ''/a'', cr_StatusCode = 200, cr_Headers = [],
          cr_Body = ''null''\<rparr>"
  by (simp add: Load_def ex_handler_def ex_world_with_def ex_world_def UnmarshalJSON_def
      json_simps base64_simps char_simps)

lemma ex_load_object:
  "Load (storage (ex_handler mode)) key (ex_world_with key code [] ''{\"a\":1}'') =
     Inr \<lparr>cr_Method = ''GET'', cr_Path = ''/a'', cr_StatusCode = code, cr_Headers = [],
          cr_Body = ''{\"a\":1}''\<rparr>"
  by (simp add: Load_def ex_handler_def ex_world_with_def ex_world_def UnmarshalJSON_def
      json_simps char_simps)

text \<open>
  Claim C10: in replay mode, when the body loaded from the stored record is empty or is
  exactly \<open>null\<close>, the handler commits the status and writes no body, whatever the
  status code.
\<close>

theorem C10_empty_or_null_body_not_written:
  assumes "Mode (config h) = ModeReplay"
    and "Body r = Inr bodyBytes"
    and "Generate (Method r) (Path (URL r)) (Some (Inr bodyBytes)) = Inr requestHash"
    and "Exists (storage h) requestHash world"
    and "Load (storage h) requestHash world = Inr cached"
    and "cr_Body cached = [] \<or> cr_Body cached = ''null''"
  shows "w_calls (fst (ServeHTTP h w r world)) =
           w_calls w @ [WriteHeaderCall (cr_StatusCode cached)]"
  using assms(6) by (auto simp add: ServeHTTP_replay_hit [OF assms(1-5)] w_calls_serveCached)

theorem C10_empty_or_null_body_not_written_witness:
  "Mode (config (ex_handler ModeReplay)) = ModeReplay \<and>
   Body (ex_request ''GET'' ''/a'' []) = Inr [] \<and>
   Exists (storage (ex_handler ModeReplay)) ex_key (ex_world_with ex_key 200 [] ''\"bnVsbA==\"'') \<and>
   Load (storage (ex_handler ModeReplay)) ex_key (ex_world_with ex_key 200 [] ''\"bnVsbA==\"'') =
     Inr \<lparr>cr_Method = ''GET'', cr_Path = ''/a'', cr_StatusCode = 200, cr_Headers = [],
          cr_Body = ''null''\<rparr> \<and>
   w_calls (fst (ServeHTTP (ex_handler ModeReplay) ex_writer (ex_request ''GET'' ''/a'' [])
             (ex_world_with ex_key 200 [] ''\"bnVsbA==\"''))) = [WriteHeaderCall 200]"
  using ex_handler_Mode ex_request_Body ex_Exists ex_load_null
    C10_empty_or_null_body_not_written [OF ex_handler_Mode ex_request_Body ex_request_hash
      ex_Exists ex_load_null, of ex_writer]
  by (simp add: ex_writer_def)

text \<open>
  Claim C4, as stated: for every status code other than 204, 304 and 1xx the stored body is
  written. It fails for a stored body that is exactly \<open>null\<close>: with status 200 the
  handler commits the status and writes nothing.
\<close>

theorem C4_null_body_counterexample:
  "\<not> ((200::int) = 204 \<or> (200::int) = 304 \<or> ((100::int) \<le> 200 \<and> (200::int) < 200)) \<and>
   Load (storage (ex_handler ModeReplay)) ex_key (ex_world_with ex_key 200 [] ''\"bnVsbA==\"'') =
     Inr \<lparr>cr_Method = ''GET'', cr_Path = ''/a'', cr_StatusCode = 200, cr_Headers = [],
          cr_Body = ''null''\<rparr> \<and>
   w_calls (fst (ServeHTTP (ex_handler ModeReplay) ex_writer (ex_request ''GET'' ''/a'' [])
             (ex_world_with ex_key 200 [] ''\"bnVsbA==\"''))) = [WriteHeaderCall 200]"
  using ex_load_null
    ServeHTTP_replay_hit [OF ex_handler_Mode ex_request_Body ex_request_hash ex_Exists ex_load_null,
      of ex_writer]
  by (simp add: w_calls_serveCached ex_writer_def statusAllowsBody_def)

text \<open>
  Claim C4, amended: in replay mode a stored record with status 204, 304 or 1xx gets no
  response body, even when a body is stored; for every other status code the stored body
  is written, unless it is empty or exactly \<open>null\<close>.
\<close>

theorem C4_body_by_status:
  assumes "Mode (config h) = ModeReplay"
    and "Body r = Inr bodyBytes"
    and "Generate (Method r) (Path (URL r)) (Some (Inr bodyBytes)) = Inr requestHash"
    and "Exists (storage h) requestHash world"
    and "Load (storage h) requestHash world = Inr cached"
  shows "(cr_StatusCode cached = 204 \<or> cr_StatusCode cached = 304 \<or>
            (100 \<le> cr_StatusCode cached \<and> cr_StatusCode cached < 200) \<longrightarrow>
          w_calls (fst (ServeHTTP h w r world)) =
            w_calls w @ [WriteHeaderCall (cr_StatusCode cached)]) \<and>
         (\<not> (cr_StatusCode cached = 204 \<or> cr_StatusCode cached = 304 \<or>
            (100 \<le> cr_StatusCode cached \<and> cr_StatusCode cached < 200)) \<and>
          cr_Body cached \<noteq> [] \<and> cr_Body cached \<noteq> ''null'' \<longrightarrow>
          w_calls (fst (ServeHTTP h w r world)) =
            w_calls w @ [WriteHeaderCall (cr_StatusCode cached), WriteCall (cr_Body cached)])"
  by (simp add: ServeHTTP_replay_hit [OF assms] w_calls_serveCached statusAllowsBody_def)

theorem C4_body_by_status_witness:
  "Mode (config (ex_handler ModeReplay)) = ModeReplay \<and>
   Body (ex_request ''GET'' ''/a'' []) = Inr [] \<and>
   Exists (storage (ex_handler ModeReplay)) ex_key (ex_world_with ex_key 204 [] ''{\"a\":1}'') \<and>
   w_calls (fst (ServeHTTP (ex_handler ModeReplay) ex_writer (ex_request ''GET'' ''/a'' [])
             (ex_world_with ex_key 204 [] ''{\"a\":1}''))) = [WriteHeaderCall 204] \<and>
   w_calls (fst (ServeHTTP (ex_handler ModeReplay) ex_writer (ex_request ''GET'' ''/a'' [])
             (ex_world_with ex_key 200 [] ''{\"a\":1}''))) =
     [WriteHeaderCall 200, WriteCall ''{\"a\":1}'']"
  using ex_handler_Mode ex_request_Body ex_Exists
    C4_body_by_status [OF ex_handler_Mode ex_request_Body ex_request_hash ex_Exists
      ex_load_object, of 204 ex_writer]
    C4_body_by_status [OF ex_handler_Mode ex_request_Body ex_request_hash ex_Exists
      ex_load_object, of 200 ex_writer]
  by (simp add: ex_writer_def)













section \<open>Record\<close>

text \<open>
  Claim C6: in record mode the response is the same whether the save fails or succeeds
  (the writer with its headers, status and body writes, and the requests sent to the
  backend); a failed save leaves the files as they were and adds an error line to the log.
\<close>

theorem C6_save_failure_only_logged:
  "fst (handleRecord h w r requestHash bodyBytes (world\<lparr>write_error := Some err\<rparr>)) =
   fst (handleRecord h w r requestHash bodyBytes (world\<lparr>write_error := None\<rparr>)) \<and>
   files (snd (handleRecord h w r requestHash bodyBytes (world\<lparr>write_error := Some err\<rparr>))) =
     files world \<and>
   contacted (snd (handleRecord h w r requestHash bodyBytes (world\<lparr>write_error := Some err\<rparr>))) =
     contacted (snd (handleRecord h w r requestHash bodyBytes (world\<lparr>write_error := None\<rparr>))) \<and>
   LogError (''Failed to save cached response: failed to write cached response: '' @ err)
     \<in> set (logs (snd (handleRecord h w r requestHash bodyBytes (world\<lparr>write_error := Some err\<rparr>))))"
  by (simp add: handleRecord_def proxy_ServeHTTP_def Save_def add_logs_def Let_def slice16_def
      split: prod.splits)

section \<open>The dispatcher\<close>

text \<open>
  Claim C3: in replay mode no request reaches the backend, and a request whose fingerprint
  has no record in the store is answered with status 404 and a plain-text message that
  names the fingerprint.
\<close>

theorem C3_replay_miss_404_no_backend:
  assumes "Mode (config h) = ModeReplay"
  shows "contacted (snd (ServeHTTP h w r world)) = contacted world \<and>
    (\<forall>bodyBytes requestHash.
       Body r = Inr bodyBytes \<and>
       Generate (Method r) (Path (URL r)) (Some (Inr bodyBytes)) = Inr requestHash \<and>
       \<not> Exists (storage h) requestHash world \<longrightarrow>
       w_calls (fst (ServeHTTP h w r world)) =
         w_calls w @ [WriteHeaderCall 404,
           WriteCall (''no cached response found for request (hash: '' @ requestHash @ '')'' @ [CHR 0x0A])] \<and>
       map_of (w_header (fst (ServeHTTP h w r world))) ''Content-Type'' =
         Some [''text/plain; charset=utf-8''])"
  using assms
  by (auto simp add: ServeHTTP_def handleReplay_def add_logs_def Let_def http_Error_def
      rw_Write_def rw_WriteHeader_def Exists_def StatusNotFound_def header_simps char_simps
      update_conv' Generate_def slice16_fingerprint
      split: sum.splits)


theorem C3_replay_miss_404_no_backend_witness:
  "Mode (config (ex_handler ModeReplay)) = ModeReplay \<and>
   \<not> Exists (storage (ex_handler ModeReplay))
        ''6250cedc68e0ee379a094115f1db0d74fdc9e0fafe1dda182597f5b037ddb7a1'' ex_world \<and>
   contacted (snd (ServeHTTP (ex_handler ModeReplay) ex_writer (ex_request ''GET'' ''/a'' []) ex_world)) = [] \<and>
   w_calls (fst (ServeHTTP (ex_handler ModeReplay) ex_writer (ex_request ''GET'' ''/a'' []) ex_world)) =
     [WriteHeaderCall 404,
      WriteCall (''no cached response found for request (hash: 6250cedc68e0ee379a094115f1db0d74fdc9e0fafe1dda182597f5b037ddb7a1)'' @ [CHR 0x0A])]"
proof -
  have m: "Mode (config (ex_handler ModeReplay)) = ModeReplay"
    by (simp add: ex_handler_def)
  have b: "Body (ex_request ''GET'' ''/a'' []) = Inr []"
    by (simp add: ex_request_def)
  have g: "Generate (Method (ex_request ''GET'' ''/a'' [])) (Path (URL (ex_request ''GET'' ''/a'' [])))
      (Some (Inr [])) = Inr ''6250cedc68e0ee379a094115f1db0d74fdc9e0fafe1dda182597f5b037ddb7a1''"
    using Generate_GET_a by (simp add: ex_request_def)
  have e: "\<not> Exists (storage (ex_handler ModeReplay))
        ''6250cedc68e0ee379a094115f1db0d74fdc9e0fafe1dda182597f5b037ddb7a1'' ex_world"
    by (simp add: Exists_def ex_world_def)
  show ?thesis
    using m b g e
      C3_replay_miss_404_no_backend [OF m, of ex_writer "ex_request ''GET'' ''/a'' []" ex_world]
    by (simp add: ex_writer_def ex_world_def)
qed

text \<open>
  Claim C9: two requests that differ only in the query string address the same stored
  record: after either request the store holds the same file names, and in replay mode
  the handler's answer and its effects are the same.
\<close>

theorem C9_query_string_ignored:
  "dom (files (snd (ServeHTTP h w (r\<lparr>URL := (URL r)\<lparr>RawQuery := q\<rparr>\<rparr>) world))) =
   dom (files (snd (ServeHTTP h w r world))) \<and>
   (Mode (config h) = ModeReplay \<longrightarrow>
      ServeHTTP h w (r\<lparr>URL := (URL r)\<lparr>RawQuery := q\<rparr>\<rparr>) world = ServeHTTP h w r world)"
  by (simp add: ServeHTTP_def handleReplay_def handleRecord_def handlePassthrough_def
      proxy_ServeHTTP_def Save_def add_logs_def Let_def Generate_def
      split: sum.splits prod.splits option.splits)


theorem C9_query_string_ignored_witness:
  "Mode (config (ex_handler ModeReplay)) = ModeReplay \<and>
   ServeHTTP (ex_handler ModeReplay) ex_writer
     ((ex_request ''GET'' ''/a'' [])\<lparr>URL := (URL (ex_request ''GET'' ''/a'' []))\<lparr>RawQuery := ''id=7''\<rparr>\<rparr>)
     ex_world =
   ServeHTTP (ex_handler ModeReplay) ex_writer (ex_request ''GET'' ''/a'' []) ex_world"
  using C9_query_string_ignored [where h = "ex_handler ModeReplay" and w = ex_writer
      and r = "ex_request ''GET'' ''/a'' []" and q = "''id=7''" and world = ex_world]
  by (simp add: ex_handler_def)

section \<open>Conditional headers\<close>

text \<open>
  Claim C5 at a request with two \<open>If-None-Match\<close> lines of which the first is empty:
  in record mode the director leaves the header in place, and the request that reaches
  the backend carries it. A \<open>Cache-Control\<close> value that asks for revalidation among
  other directives is left in place as well.
\<close>

theorem C5_empty_first_value_not_stripped:
  "map_of (Header (fst (Director (ex_handler ModeRecord)
      (ex_request ''GET'' ''/a'' [(''If-None-Match'', [[], ''\"etag1\"''])])))) ''If-None-Match'' =
     Some [[], ''\"etag1\"''] \<and>
   map (\<lambda>req. map_of (Header req) ''If-None-Match'')
     (contacted (snd (ServeHTTP (ex_handler ModeRecord) ex_writer
        (ex_request ''GET'' ''/a'' [(''If-None-Match'', [[], ''\"etag1\"''])]) ex_world))) =
     [Some [[], ''\"etag1\"'']] \<and>
   map_of (Header (fst (Director (ex_handler ModeRecord)
      (ex_request ''GET'' ''/a'' [(''Cache-Control'', [''no-cache, no-store''])])))) ''Cache-Control'' =
     Some [''no-cache, no-store'']"
  by (simp add: Director_def ServeHTTP_def handleRecord_def proxy_ServeHTTP_def Generate_def
      add_logs_def Save_def Let_def slice16_fingerprint ex_handler_def ex_request_def ex_proxy_def
      ex_world_def
      ModeRecord_def ModeReplay_def stripConditionalHeaders_def conditionalHeaders_def
      header_simps char_simps split: prod.splits)

section \<open>The body encoding\<close>

lemma MarshalJSON_hello:
  "MarshalJSON ''\"hello\"'' = ''\"hello\"''"
  by (simp add: MarshalJSON_def json_simps char_simps)

lemma UnmarshalJSON_hello:
  "UnmarshalJSON ''\"hello\"'' = ''hello''"
  by (simp add: UnmarshalJSON_def json_simps base64_simps char_simps)

lemma json_Unmarshal_hello:
  "json_Unmarshal ''\"hello\"'' = Some (JString ''hello'')"
  by (simp add: json_simps char_simps)

text \<open>
  Claim C1 at a body that is a JSON string literal, the seven bytes \<open>"hello"\<close>: the
  body is valid JSON, the save succeeds, and the body loaded back is the five bytes
  \<open>hello\<close>, which is not JSON at all. The same happens to the body \<open>null\<close>, which
  is loaded back as the empty body.
\<close>

theorem C1_json_string_body_not_recovered:
  "json_Unmarshal ''\"hello\"'' = Some (JString ''hello'') \<and>
   save_then_load ex_storage ''k'' (ex_response ''\"hello\"'') ex_world =
     Inr (ex_response ''hello'') \<and>
   json_Unmarshal ''hello'' = None \<and>
   save_then_load ex_storage ''k'' (ex_response ''null'') ex_world = Inr (ex_response [])"
proof -
  have a: "save_then_load ex_storage ''k'' (ex_response ''\"hello\"'') ex_world =
     Inr (ex_response ''hello'')"
    by (simp add: save_then_load_def Save_def Load_def ex_response_def ex_world_def Let_def
        MarshalJSON_hello UnmarshalJSON_hello json_Unmarshal_hello)
  have b: "json_Unmarshal ''hello'' = None"
    by (simp add: json_simps char_simps)
  have c: "save_then_load ex_storage ''k'' (ex_response ''null'') ex_world = Inr (ex_response [])"
    by (simp add: save_then_load_def Save_def Load_def ex_response_def ex_world_def Let_def
        MarshalJSON_def UnmarshalJSON_def json_simps base64_simps char_simps)
  show ?thesis
    using a b c json_Unmarshal_hello by simp
qed


end
